theory Spec2Isabelle
  imports Main "HOL-Library.Word" "HOL-Library.Log_Nat" "HOL-Library.Multiset"
    "HOL-Library.Char_ord"
begin

unbundle bit_operations_syntax

section \<open>Go's float64\<close>

text \<open>
  A Go \<open>float64\<close> is an IEEE 754 binary64 value.  It is modelled by its 64-bit pattern
  (what \<open>math.Float64bits\<close> returns): bit 63 is the sign, bits 62..52 the biased
  exponent, bits 51..0 the fraction.  Arithmetic decodes the operands, computes the exact
  result as a quotient of two naturals with a sign, and rounds it to the nearest
  representable value, ties to even, which is the only rounding mode Go uses.  Which NaN
  an invalid operation returns depends on the processor; the model returns one quiet NaN.
\<close>

type_synonym float64 = "64 word"

datatype fvalue =
    FNaN
  | FInf bool
  | FFin bool nat int  \<comment> \<open>sign, significand \<open>m\<close>, exponent \<open>e\<close>: the value \<open>\<plusminus> m * 2 ^ e\<close>\<close>

definition f64_sign :: "float64 \<Rightarrow> bool" where
  "f64_sign w = bit w 63"

definition f64_expo :: "float64 \<Rightarrow> nat" where
  "f64_expo w = unat (drop_bit 52 w) mod 2048"

definition f64_frac :: "float64 \<Rightarrow> nat" where
  "f64_frac w = unat w mod 2 ^ 52"

definition f64_decode :: "float64 \<Rightarrow> fvalue" where
  "f64_decode w =
     (if f64_expo w = 2047 then (if f64_frac w = 0 then FInf (f64_sign w) else FNaN)
      else if f64_expo w = 0 then FFin (f64_sign w) (f64_frac w) (- 1074)
      else FFin (f64_sign w) (2 ^ 52 + f64_frac w) (int (f64_expo w) - 1075))"

definition f64_pack :: "bool \<Rightarrow> nat \<Rightarrow> float64" where
  "f64_pack s n = (if s then push_bit 63 1 else 0) OR word_of_nat n"

definition f64_nan :: float64 where
  "f64_nan = f64_pack False (2047 * 2 ^ 52 + 2 ^ 51)"

definition f64_inf :: "bool \<Rightarrow> float64" where
  "f64_inf s = f64_pack s (2047 * 2 ^ 52)"

definition f64_zero :: "bool \<Rightarrow> float64" where
  "f64_zero s = f64_pack s 0"

text \<open>
  \<open>ilog2 num den\<close> is the \<open>e\<close> with \<open>2 ^ e \<le> num / den < 2 ^ (e + 1)\<close>, for positive
  \<open>num\<close> and \<open>den\<close>.  It is the difference of the bit lengths, or one less.
\<close>

definition ilog2 :: "nat \<Rightarrow> nat \<Rightarrow> int" where
  "ilog2 num den =
     (let d = int (floorlog 2 num) - int (floorlog 2 den)
      in if (if 0 \<le> d then den * 2 ^ nat d \<le> num else den \<le> num * 2 ^ nat (- d))
         then d else d - 1)"

text \<open>
  \<open>f64_round s num den\<close> is the float64 nearest to \<open>\<plusminus> num / den\<close> (\<open>den > 0\<close>), ties to
  even.  The quotient is scaled by \<open>2 ^ (52 - e)\<close>, where \<open>e\<close> is its binary exponent, not
  below the exponent -1022 of the subnormal numbers, and rounded to an integer \<open>m\<close>.  The
  bit pattern is then \<open>(e + 1022) * 2 ^ 52 + m\<close>: for a normal number \<open>m\<close> carries the
  implicit leading bit, which adds one to the exponent field, and a carry out of the
  significand moves to the next exponent in the same way.  A pattern at or beyond the one
  of infinity is an overflow and gives infinity.
\<close>

definition f64_round :: "bool \<Rightarrow> nat \<Rightarrow> nat \<Rightarrow> float64" where
  "f64_round s num den =
     (if num = 0 then f64_zero s
      else
        let e = max (ilog2 num den) (- 1022);
            sh = 52 - e;
            n = (if 0 \<le> sh then num * 2 ^ nat sh else num);
            d = (if 0 \<le> sh then den else den * 2 ^ nat (- sh));
            q = n div d;
            r = n mod d;
            m = (if d < 2 * r \<or> (2 * r = d \<and> odd q) then q + 1 else q);
            p = nat (e + 1022) * 2 ^ 52 + m
        in if 2047 * 2 ^ 52 \<le> p then f64_inf s else f64_pack s p)"

text \<open>An untyped Go constant such as \<open>1.609\<close> is converted to the nearest float64.\<close>

definition f64_const :: "nat \<Rightarrow> nat \<Rightarrow> float64" where
  "f64_const num den = f64_round False num den"

text \<open>The exact value \<open>m * 2 ^ e\<close> as a quotient of naturals.\<close>

definition dy_num :: "nat \<Rightarrow> int \<Rightarrow> nat" where
  "dy_num m e = (if 0 \<le> e then m * 2 ^ nat e else m)"

definition dy_den :: "int \<Rightarrow> nat" where
  "dy_den e = (if 0 \<le> e then 1 else 2 ^ nat (- e))"

definition f64_mul :: "float64 \<Rightarrow> float64 \<Rightarrow> float64" where
  "f64_mul a b =
     (case (f64_decode a, f64_decode b) of
        (FNaN, _) \<Rightarrow> f64_nan
      | (_, FNaN) \<Rightarrow> f64_nan
      | (FInf s, FInf t) \<Rightarrow> f64_inf (s \<noteq> t)
      | (FInf s, FFin t m e) \<Rightarrow> (if m = 0 then f64_nan else f64_inf (s \<noteq> t))
      | (FFin s m e, FInf t) \<Rightarrow> (if m = 0 then f64_nan else f64_inf (s \<noteq> t))
      | (FFin s m e, FFin t m' e') \<Rightarrow>
          f64_round (s \<noteq> t) (dy_num (m * m') (e + e')) (dy_den (e + e')))"

definition f64_div :: "float64 \<Rightarrow> float64 \<Rightarrow> float64" where
  "f64_div a b =
     (case (f64_decode a, f64_decode b) of
        (FNaN, _) \<Rightarrow> f64_nan
      | (_, FNaN) \<Rightarrow> f64_nan
      | (FInf s, FInf t) \<Rightarrow> f64_nan
      | (FInf s, FFin t m e) \<Rightarrow> f64_inf (s \<noteq> t)
      | (FFin s m e, FInf t) \<Rightarrow> f64_zero (s \<noteq> t)
      | (FFin s m e, FFin t m' e') \<Rightarrow>
          (if m' = 0 then (if m = 0 then f64_nan else f64_inf (s \<noteq> t))
           else f64_round (s \<noteq> t) (dy_num m e * dy_den e') (dy_den e * dy_num m' e')))"

definition f64_add :: "float64 \<Rightarrow> float64 \<Rightarrow> float64" where
  "f64_add a b =
     (case (f64_decode a, f64_decode b) of
        (FNaN, _) \<Rightarrow> f64_nan
      | (_, FNaN) \<Rightarrow> f64_nan
      | (FInf s, FInf t) \<Rightarrow> (if s = t then f64_inf s else f64_nan)
      | (FInf s, FFin t m e) \<Rightarrow> f64_inf s
      | (FFin s m e, FInf t) \<Rightarrow> f64_inf t
      | (FFin s m e, FFin t m' e') \<Rightarrow>
          (let x = (if s then - 1 else 1) * int (dy_num m e * dy_den e');
               y = (if t then - 1 else 1) * int (dy_num m' e' * dy_den e);
               z = x + y
           in if z = 0 then f64_zero (s \<and> t)
              else f64_round (z < 0) (nat \<bar>z\<bar>) (dy_den e * dy_den e')))"

section \<open>Errors and panics\<close>

text \<open>
  A Go \<open>error\<close> value.  \<open>Errorf\<close> keeps the format string and the operands of
  \<open>fmt.Errorf\<close> (the message is not rendered); \<open>ErrorString\<close> is \<open>errors.New\<close>;
  \<open>EscapeError\<close>, \<open>InvalidHostError\<close> and \<open>url_Error\<close> are the error types of
  \<open>net/url\<close>.
\<close>

datatype error =
    ErrorString string
  | Errorf string "string list"
  | EscapeError string
  | InvalidHostError string
  | url_Error string string error  \<comment> \<open>\<open>Op\<close>, \<open>URL\<close>, \<open>Err\<close>\<close>

text \<open>
  A call either returns or panics; a panic ends the program.  \<open>Unmodelled\<close> marks a call
  that leaves the part of Go's library this theory describes.
\<close>

datatype 'a res = Ret 'a | Panic string | Unmodelled

section \<open>Go's net/url\<close>

text \<open>
  The plugin parses its base URL with \<open>url.Parse\<close> and builds each request URL with
  \<open>url.PathEscape\<close>, \<open>url.Values.Encode\<close>, \<open>URL.ResolveReference\<close> and
  \<open>URL.String\<close>.  This section transcribes these functions of Go's \<open>net/url\<close> (as of
  Go 1.17, the release current when the plugin was written) and the helpers they call.
  A Go string is a sequence of bytes, as a HOL \<open>string\<close> is.
\<close>

record Userinfo =
  username :: string
  password :: string
  passwordSet :: bool

record URL =
  Scheme :: string
  Opaque :: string
  User :: "Userinfo option"  \<comment> \<open>a pointer: nil is \<open>None\<close>\<close>
  Host :: string
  Path :: string
  RawPath :: string
  ForceQuery :: bool
  RawQuery :: string
  Fragment :: string
  RawFragment :: string

definition new_URL :: URL where
  "new_URL = \<lparr>Scheme = [], Opaque = [], User = None, Host = [], Path = [], RawPath = [],
     ForceQuery = False, RawQuery = [], Fragment = [], RawFragment = []\<rparr>"

datatype encoding =
    encodePath
  | encodePathSegment
  | encodeHost
  | encodeZone
  | encodeUserPassword
  | encodeQueryComponent
  | encodeFragment

subsection \<open>Helpers of package strings\<close>

fun HasPrefix :: "string \<Rightarrow> string \<Rightarrow> bool" where
  "HasPrefix s [] = True"
| "HasPrefix [] (p # ps) = False"
| "HasPrefix (c # s) (p # ps) = (c = p \<and> HasPrefix s ps)"

text \<open>\<open>strings.Index\<close> and \<open>strings.LastIndex\<close>: \<open>None\<close> is the result -1.\<close>

fun Index :: "string \<Rightarrow> string \<Rightarrow> nat option" where
  "Index [] sub = (if sub = [] then Some 0 else None)"
| "Index (c # s) sub =
     (if HasPrefix (c # s) sub then Some 0 else map_option Suc (Index s sub))"

fun LastIndex :: "string \<Rightarrow> string \<Rightarrow> nat option" where
  "LastIndex [] sub = (if sub = [] then Some 0 else None)"
| "LastIndex (c # s) sub =
     (case LastIndex s sub of
        Some i \<Rightarrow> Some (Suc i)
      | None \<Rightarrow> (if HasPrefix (c # s) sub then Some 0 else None))"

text \<open>\<open>strings.Split(s, sep)\<close> for a separator of one byte.\<close>

fun Split :: "string \<Rightarrow> char \<Rightarrow> string list" where
  "Split [] sep = [[]]"
| "Split (c # s) sep =
     (if c = sep then [] # Split s sep
      else (case Split s sep of x # xs \<Rightarrow> (c # x) # xs | [] \<Rightarrow> [[c]]))"

text \<open>\<open>strings.ToLower\<close> on ASCII letters; other bytes stay.\<close>

definition ToLower :: "string \<Rightarrow> string" where
  "ToLower s =
     map (\<lambda>c. if CHR ''A'' \<le> c \<and> c \<le> CHR ''Z'' then char_of (of_char c + (32::nat)) else c) s"

definition TrimPrefix :: "string \<Rightarrow> string \<Rightarrow> string" where
  "TrimPrefix s p = (if HasPrefix s p then drop (length p) s else s)"

subsection \<open>Escaping\<close>

definition ishex :: "char \<Rightarrow> bool" where
  "ishex c \<longleftrightarrow>
     (CHR ''0'' \<le> c \<and> c \<le> CHR ''9'') \<or> (CHR ''a'' \<le> c \<and> c \<le> CHR ''f'')
     \<or> (CHR ''A'' \<le> c \<and> c \<le> CHR ''F'')"

definition unhex :: "char \<Rightarrow> nat" where
  "unhex c =
     (if CHR ''0'' \<le> c \<and> c \<le> CHR ''9'' then of_char c - of_char CHR ''0''
      else if CHR ''a'' \<le> c \<and> c \<le> CHR ''f'' then of_char c - of_char CHR ''a'' + 10
      else if CHR ''A'' \<le> c \<and> c \<le> CHR ''F'' then of_char c - of_char CHR ''A'' + 10
      else 0)"

definition upperhex :: "nat \<Rightarrow> char" where
  "upperhex k = ''0123456789ABCDEF'' ! (k mod 16)"

text \<open>
  \<open>shouldEscape c mode\<close>: whether the byte is percent-escaped in the given part of a URL.
  The bytes \<open>0x27\<close> and \<open>0x22\<close> are the single and the double quote.
\<close>

definition shouldEscape :: "char \<Rightarrow> encoding \<Rightarrow> bool" where
  "shouldEscape c mode =
     (if (CHR ''a'' \<le> c \<and> c \<le> CHR ''z'') \<or> (CHR ''A'' \<le> c \<and> c \<le> CHR ''Z'')
         \<or> (CHR ''0'' \<le> c \<and> c \<le> CHR ''9'') then False
      else if (mode = encodeHost \<or> mode = encodeZone)
         \<and> c \<in> set (''!$&()*+,;=:[]<>'' @ [CHR 0x27, CHR 0x22]) then False
      else if c \<in> set ''-_.~'' then False
      else if c \<in> set ''$&+,/:;=?@'' then
        (case mode of
           encodePath \<Rightarrow> c = CHR ''?''
         | encodePathSegment \<Rightarrow> c = CHR ''/'' \<or> c = CHR '';'' \<or> c = CHR '','' \<or> c = CHR ''?''
         | encodeUserPassword \<Rightarrow> c = CHR ''@'' \<or> c = CHR ''/'' \<or> c = CHR ''?'' \<or> c = CHR '':''
         | encodeQueryComponent \<Rightarrow> True
         | encodeFragment \<Rightarrow> False
         | _ \<Rightarrow> True)
      else if mode = encodeFragment \<and> c \<in> set ''!()*'' then False
      else True)"

fun escape :: "string \<Rightarrow> encoding \<Rightarrow> string" where
  "escape [] mode = []"
| "escape (c # s) mode =
     (if c = CHR '' '' \<and> mode = encodeQueryComponent then CHR ''+'' # escape s mode
      else if shouldEscape c mode
      then CHR ''%'' # upperhex (of_char c div 16) # upperhex (of_char c mod 16) # escape s mode
      else c # escape s mode)"

definition PathEscape :: "string \<Rightarrow> string" where
  "PathEscape s = escape s encodePathSegment"

definition QueryEscape :: "string \<Rightarrow> string" where
  "QueryEscape s = escape s encodeQueryComponent"

text \<open>
  \<open>unescape\<close>.  The source checks the whole string in a first loop and decodes it in a
  second one; here both are one pass, which finds the same first error and otherwise the
  same decoded string.
\<close>

fun unescape :: "string \<Rightarrow> encoding \<Rightarrow> error + string" where
  "unescape [] mode = Inr []"
| "unescape (c # s) mode =
     (if c = CHR ''%'' then
        (case s of
           h1 # h2 # s' \<Rightarrow>
             if \<not> ishex h1 \<or> \<not> ishex h2 then Inl (EscapeError (take 3 (c # s)))
             else if mode = encodeHost \<and> unhex h1 < 8 \<and> [c, h1, h2] \<noteq> ''%25''
             then Inl (EscapeError [c, h1, h2])
             else if mode = encodeZone \<and> [c, h1, h2] \<noteq> ''%25''
                  \<and> char_of (unhex h1 * 16 + unhex h2) \<noteq> CHR '' ''
                  \<and> shouldEscape (char_of (unhex h1 * 16 + unhex h2)) encodeHost
             then Inl (EscapeError [c, h1, h2])
             else (case unescape s' mode of
                     Inl err \<Rightarrow> Inl err
                   | Inr t \<Rightarrow> Inr (char_of (unhex h1 * 16 + unhex h2) # t))
         | _ \<Rightarrow> Inl (EscapeError (take 3 (c # s))))
      else if c = CHR ''+'' then
        (case unescape s mode of
           Inl err \<Rightarrow> Inl err
         | Inr t \<Rightarrow> Inr ((if mode = encodeQueryComponent then CHR '' '' else CHR ''+'') # t))
      else if (mode = encodeHost \<or> mode = encodeZone) \<and> c < CHR 0x80
              \<and> shouldEscape c encodeHost
      then Inl (InvalidHostError [c])
      else (case unescape s mode of
              Inl err \<Rightarrow> Inl err
            | Inr t \<Rightarrow> Inr (c # t)))"

definition validEncoded :: "string \<Rightarrow> encoding \<Rightarrow> bool" where
  "validEncoded s mode =
     list_all (\<lambda>c. c \<in> set (''!$&()*+,;=:@[]%'' @ [CHR 0x27]) \<or> \<not> shouldEscape c mode) s"

subsection \<open>Parsing\<close>

text \<open>
  \<open>split s sep cutc\<close> cuts \<open>s\<close> at the first \<open>sep\<close>; with \<open>cutc\<close> the separator is left
  out of the second part.  Without a separator the result is \<open>s\<close> and the empty string.
\<close>

definition split :: "string \<Rightarrow> char \<Rightarrow> bool \<Rightarrow> string \<times> string" where
  "split s sep cutc =
     (case Index s [sep] of
        None \<Rightarrow> (s, [])
      | Some i \<Rightarrow> (if cutc then (take i s, drop (i + 1) s) else (take i s, drop i s)))"

definition stringContainsCTLByte :: "string \<Rightarrow> bool" where
  "stringContainsCTLByte s = list_ex (\<lambda>b. b < CHR '' '' \<or> b = CHR 0x7F) s"

fun getScheme_loop :: "string \<Rightarrow> nat \<Rightarrow> string \<Rightarrow> error + string \<times> string" where
  "getScheme_loop rawURL i [] = Inr ([], rawURL)"
| "getScheme_loop rawURL i (c # cs) =
     (if (CHR ''a'' \<le> c \<and> c \<le> CHR ''z'') \<or> (CHR ''A'' \<le> c \<and> c \<le> CHR ''Z'')
      then getScheme_loop rawURL (i + 1) cs
      else if (CHR ''0'' \<le> c \<and> c \<le> CHR ''9'') \<or> c = CHR ''+'' \<or> c = CHR ''-'' \<or> c = CHR ''.''
      then (if i = 0 then Inr ([], rawURL) else getScheme_loop rawURL (i + 1) cs)
      else if c = CHR '':''
      then (if i = 0 then Inl (ErrorString ''missing protocol scheme'')
            else Inr (take i rawURL, drop (i + 1) rawURL))
      else Inr ([], rawURL))"

definition getScheme :: "string \<Rightarrow> error + string \<times> string" where
  "getScheme rawURL = getScheme_loop rawURL 0 rawURL"

definition validOptionalPort :: "string \<Rightarrow> bool" where
  "validOptionalPort port =
     (case port of
        [] \<Rightarrow> True
      | c # ds \<Rightarrow> c = CHR '':'' \<and> list_all (\<lambda>b. CHR ''0'' \<le> b \<and> b \<le> CHR ''9'') ds)"

definition validUserinfo :: "string \<Rightarrow> bool" where
  "validUserinfo s =
     list_all (\<lambda>r. (CHR ''A'' \<le> r \<and> r \<le> CHR ''Z'') \<or> (CHR ''a'' \<le> r \<and> r \<le> CHR ''z'')
                 \<or> (CHR ''0'' \<le> r \<and> r \<le> CHR ''9'')
                 \<or> r \<in> set (''-._:~!$&()*+,;=%@'' @ [CHR 0x27])) s"

definition parseHost :: "string \<Rightarrow> error + string" where
  "parseHost host =
     (if HasPrefix host ''['' then
        (case LastIndex host '']'' of
           None \<Rightarrow> Inl (ErrorString (''missing '' @ [CHR 0x27] @ '']'' @ [CHR 0x27] @ '' in host''))
         | Some i \<Rightarrow>
             if \<not> validOptionalPort (drop (i + 1) host)
             then Inl (Errorf ''invalid port %q after host'' [drop (i + 1) host])
             else (case Index (take i host) ''%25'' of
                     Some zone \<Rightarrow>
                       (case unescape (take zone host) encodeHost of
                          Inl err \<Rightarrow> Inl err
                        | Inr host1 \<Rightarrow>
                            (case unescape (drop zone (take i host)) encodeZone of
                               Inl err \<Rightarrow> Inl err
                             | Inr host2 \<Rightarrow>
                                 (case unescape (drop i host) encodeHost of
                                    Inl err \<Rightarrow> Inl err
                                  | Inr host3 \<Rightarrow> Inr (host1 @ host2 @ host3))))
                   | None \<Rightarrow> unescape host encodeHost))
      else
        (case LastIndex host '':'' of
           Some i \<Rightarrow>
             if \<not> validOptionalPort (drop i host)
             then Inl (Errorf ''invalid port %q after host'' [drop i host])
             else unescape host encodeHost
         | None \<Rightarrow> unescape host encodeHost))"

definition parseAuthority :: "string \<Rightarrow> error + Userinfo option \<times> string" where
  "parseAuthority authority =
     (let i = LastIndex authority ''@''
      in case parseHost (case i of None \<Rightarrow> authority | Some k \<Rightarrow> drop (k + 1) authority) of
           Inl err \<Rightarrow> Inl err
         | Inr host \<Rightarrow>
             (case i of
                None \<Rightarrow> Inr (None, host)
              | Some k \<Rightarrow>
                  let userinfo = take k authority
                  in if \<not> validUserinfo userinfo
                     then Inl (ErrorString ''net/url: invalid userinfo'')
                     else if CHR '':'' \<notin> set userinfo then
                       (case unescape userinfo encodeUserPassword of
                          Inl err \<Rightarrow> Inl err
                        | Inr name \<Rightarrow>
                            Inr (Some \<lparr>username = name, password = [], passwordSet = False\<rparr>,
                                 host))
                     else
                       (case unescape (fst (split userinfo CHR '':'' True)) encodeUserPassword of
                          Inl err \<Rightarrow> Inl err
                        | Inr name \<Rightarrow>
                            (case unescape (snd (split userinfo CHR '':'' True))
                                    encodeUserPassword of
                               Inl err \<Rightarrow> Inl err
                             | Inr pw \<Rightarrow>
                                 Inr (Some \<lparr>username = name, password = pw,
                                              passwordSet = True\<rparr>, host)))))"

definition setPath :: "URL \<Rightarrow> string \<Rightarrow> error + URL" where
  "setPath u p =
     (case unescape p encodePath of
        Inl err \<Rightarrow> Inl err
      | Inr path \<Rightarrow>
          Inr (u\<lparr>Path := path, RawPath := (if p = escape path encodePath then [] else p)\<rparr>))"

definition setFragment :: "URL \<Rightarrow> string \<Rightarrow> error + URL" where
  "setFragment u f =
     (case unescape f encodeFragment of
        Inl err \<Rightarrow> Inl err
      | Inr frag \<Rightarrow>
          Inr (u\<lparr>Fragment := frag,
                 RawFragment := (if f = escape frag encodeFragment then [] else f)\<rparr>))"

text \<open>
  \<open>parse rawURL viaRequest\<close>, in the order of the source: control bytes, the empty
  URL of a request, the URL \<open>*\<close>, the scheme, the query, an opaque or a relative rest, the
  authority, the path.
\<close>

definition parse :: "string \<Rightarrow> bool \<Rightarrow> error + URL" where
  "parse rawURL viaRequest =
     (if stringContainsCTLByte rawURL
      then Inl (ErrorString ''net/url: invalid control character in URL'')
      else if rawURL = [] \<and> viaRequest then Inl (ErrorString ''empty url'')
      else if rawURL = ''*'' then Inr (new_URL\<lparr>Path := ''*''\<rparr>)
      else
        (case getScheme rawURL of
           Inl err \<Rightarrow> Inl err
         | Inr (scheme, rest0) \<Rightarrow>
             let url1 = new_URL\<lparr>Scheme := ToLower scheme\<rparr>;
                 force = (rest0 \<noteq> [] \<and> last rest0 = CHR ''?''
                          \<and> count_list rest0 CHR ''?'' = 1);
                 rest1 = (if force then butlast rest0 else fst (split rest0 CHR ''?'' True));
                 url2 = (if force then url1\<lparr>ForceQuery := True\<rparr>
                         else url1\<lparr>RawQuery := snd (split rest0 CHR ''?'' True)\<rparr>)
             in if \<not> HasPrefix rest1 ''/'' \<and> Scheme url2 \<noteq> []
                then Inr (url2\<lparr>Opaque := rest1\<rparr>)
                else if \<not> HasPrefix rest1 ''/'' \<and> viaRequest
                then Inl (ErrorString ''invalid URI for request'')
                else if \<not> HasPrefix rest1 ''/''
                     \<and> (case Index rest1 '':'' of
                          None \<Rightarrow> False
                        | Some colon \<Rightarrow>
                            (case Index rest1 ''/'' of
                               None \<Rightarrow> True
                             | Some slash \<Rightarrow> colon < slash))
                then Inl (ErrorString ''first path segment in URL cannot contain colon'')
                else if (Scheme url2 \<noteq> [] \<or> (\<not> viaRequest \<and> \<not> HasPrefix rest1 ''///''))
                        \<and> HasPrefix rest1 ''//''
                then
                  (case parseAuthority (fst (split (drop 2 rest1) CHR ''/'' False)) of
                     Inl err \<Rightarrow> Inl err
                   | Inr (user, host) \<Rightarrow>
                       setPath (url2\<lparr>User := user, Host := host\<rparr>)
                         (snd (split (drop 2 rest1) CHR ''/'' False)))
                else setPath url2 rest1))"

definition Parse :: "string \<Rightarrow> error + URL" where
  "Parse rawURL =
     (let u = fst (split rawURL CHR ''#'' True);
          frag = snd (split rawURL CHR ''#'' True)
      in case parse u False of
           Inl err \<Rightarrow> Inl (url_Error ''parse'' u err)
         | Inr url \<Rightarrow>
             if frag = [] then Inr url
             else (case setFragment url frag of
                     Inl err \<Rightarrow> Inl (url_Error ''parse'' rawURL err)
                   | Inr url' \<Rightarrow> Inr url'))"

subsection \<open>Resolving a reference and printing\<close>

definition EscapedPath :: "URL \<Rightarrow> string" where
  "EscapedPath u =
     (if RawPath u \<noteq> [] \<and> validEncoded (RawPath u) encodePath
         \<and> unescape (RawPath u) encodePath = Inr (Path u) then RawPath u
      else if Path u = ''*'' then ''*''
      else escape (Path u) encodePath)"

definition EscapedFragment :: "URL \<Rightarrow> string" where
  "EscapedFragment u =
     (if RawFragment u \<noteq> [] \<and> validEncoded (RawFragment u) encodeFragment
         \<and> unescape (RawFragment u) encodeFragment = Inr (Fragment u) then RawFragment u
      else escape (Fragment u) encodeFragment)"

text \<open>
  \<open>resolvePath\<close> walks the elements of the joined path between slashes; the state of its
  loop is the text written so far and the flag \<open>first\<close>.
\<close>

definition resolvePath_step :: "string \<times> bool \<Rightarrow> string \<Rightarrow> string \<times> bool" where
  "resolvePath_step st elem =
     (case st of (dst, first) \<Rightarrow>
        if elem = ''.'' then (dst, False)
        else if elem = ''..'' then
          (case LastIndex dst ''/'' of
             None \<Rightarrow> ([], True)
           | Some index \<Rightarrow> (take index dst, first))
        else ((if \<not> first then dst @ ''/'' else dst) @ elem, False))"

definition resolvePath :: "string \<Rightarrow> string \<Rightarrow> string" where
  "resolvePath base ref =
     (let full =
            (if ref = [] then base
             else if hd ref \<noteq> CHR ''/'' then
               (case LastIndex base ''/'' of
                  None \<Rightarrow> ref
                | Some i \<Rightarrow> take (i + 1) base @ ref)
             else ref)
      in if full = [] then []
         else
           let elems = Split full CHR ''/'';
               dst = fst (foldl resolvePath_step ([], True) elems);
               dst' = (if last elems = ''.'' \<or> last elems = ''..'' then dst @ ''/'' else dst)
           in ''/'' @ TrimPrefix dst' ''/'')"

definition ResolveReference :: "URL \<Rightarrow> URL \<Rightarrow> URL" where
  "ResolveReference u ref =
     (let url = (if Scheme ref = [] then ref\<lparr>Scheme := Scheme u\<rparr> else ref)
      in if Scheme ref \<noteq> [] \<or> Host ref \<noteq> [] \<or> User ref \<noteq> None then
           (case setPath url (resolvePath (EscapedPath ref) []) of
              Inl err \<Rightarrow> url
            | Inr url' \<Rightarrow> url')
         else if Opaque ref \<noteq> [] then url\<lparr>User := None, Host := [], Path := []\<rparr>
         else
           let url1 =
                 (if Path ref = [] \<and> \<not> ForceQuery ref \<and> RawQuery ref = [] then
                    (if Fragment ref = []
                     then url\<lparr>RawQuery := RawQuery u, Fragment := Fragment u,
                              RawFragment := RawFragment u\<rparr>
                     else url\<lparr>RawQuery := RawQuery u\<rparr>)
                  else url);
               url2 = url1\<lparr>Host := Host u, User := User u\<rparr>
           in case setPath url2 (resolvePath (EscapedPath u) (EscapedPath ref)) of
                Inl err \<Rightarrow> url2
              | Inr url' \<Rightarrow> url')"

definition Userinfo_String :: "Userinfo \<Rightarrow> string" where
  "Userinfo_String ui =
     escape (username ui) encodeUserPassword
     @ (if passwordSet ui then '':'' @ escape (password ui) encodeUserPassword else [])"

definition URL_String :: "URL \<Rightarrow> string" where
  "URL_String u =
     (let buf1 = (if Scheme u \<noteq> [] then Scheme u @ '':'' else []);
          buf2 =
            (if Opaque u \<noteq> [] then buf1 @ Opaque u
             else
               let buf3 =
                     (if Scheme u \<noteq> [] \<or> Host u \<noteq> [] \<or> User u \<noteq> None then
                        buf1
                        @ (if Host u \<noteq> [] \<or> Path u \<noteq> [] \<or> User u \<noteq> None then ''//'' else [])
                        @ (case User u of None \<Rightarrow> [] | Some ui \<Rightarrow> Userinfo_String ui @ ''@'')
                        @ (if Host u \<noteq> [] then escape (Host u) encodeHost else [])
                      else buf1);
                   path = EscapedPath u;
                   buf4 = (if path \<noteq> [] \<and> hd path \<noteq> CHR ''/'' \<and> Host u \<noteq> []
                           then buf3 @ ''/'' else buf3);
                   buf5 =
                     (if buf4 = []
                         \<and> (case Index path '':'' of
                              None \<Rightarrow> False
                            | Some i \<Rightarrow> Index (take i path) ''/'' = None)
                      then buf4 @ ''./'' else buf4)
               in buf5 @ path);
          buf6 = (if ForceQuery u \<or> RawQuery u \<noteq> [] then buf2 @ ''?'' @ RawQuery u else buf2)
      in if Fragment u \<noteq> [] then buf6 @ ''#'' @ EscapedFragment u else buf6)"

text \<open>
  \<open>url.Values\<close> is a map from a key to a list of values.  \<open>Encode\<close> writes the keys in
  sorted order; the model takes the entries of the map as a list in that order.
\<close>

type_synonym Values = "(string \<times> string list) list"

definition Values_Encode :: "Values \<Rightarrow> string" where
  "Values_Encode v =
     foldl (\<lambda>buf kv. if buf = [] then kv else buf @ ''&'' @ kv) []
       (concat (map (\<lambda>(k, vs). map (\<lambda>x. QueryEscape k @ ''='' @ QueryEscape x) vs) v))"

section \<open>Go's fmt.Sprintf\<close>

text \<open>
  \<open>fmt.Sprintf(format, a)\<close> with one operand \<open>a\<close> of type string, for a format made of
  plain text and the verbs \<open>%s\<close>, \<open>%v\<close> and \<open>%%\<close>.  The second argument of the loop is
  the operand while no verb has used it.  A verb without operand prints \<open>%!s(MISSING)\<close>, a
  percent sign at the end \<open>%!(NOVERB)\<close>, an unused operand \<open>%!(EXTRA string=a)\<close>.  Any
  other verb, flag or width is outside the model: the result is \<open>None\<close>.
\<close>

fun Sprintf_loop :: "string \<Rightarrow> string option \<Rightarrow> string option" where
  "Sprintf_loop [] None = Some []"
| "Sprintf_loop [] (Some a) = Some (''%!(EXTRA string='' @ a @ '')'')"
| "Sprintf_loop [c] operand =
     (if c = CHR ''%'' then map_option (\<lambda>t. ''%!(NOVERB)'' @ t) (Sprintf_loop [] operand)
      else map_option (\<lambda>t. c # t) (Sprintf_loop [] operand))"
| "Sprintf_loop (c # v # f) operand =
     (if c \<noteq> CHR ''%'' then map_option (\<lambda>t. c # t) (Sprintf_loop (v # f) operand)
      else if v = CHR ''%'' then map_option (\<lambda>t. CHR ''%'' # t) (Sprintf_loop f operand)
      else if v = CHR ''s'' \<or> v = CHR ''v'' then
        (case operand of
           Some a \<Rightarrow> map_option (\<lambda>t. a @ t) (Sprintf_loop f None)
         | None \<Rightarrow> map_option (\<lambda>t. ''%!'' @ [v] @ ''(MISSING)'' @ t) (Sprintf_loop f None))
      else None)"

definition Sprintf :: "string \<Rightarrow> string \<Rightarrow> string option" where
  "Sprintf format a = Sprintf_loop format (Some a)"

section \<open>The plugin's data\<close>

text \<open>\<open>http.Client\<close>: the plugin sets its \<open>Timeout\<close> (nanoseconds).\<close>

record http_Client =
  Timeout :: int

text \<open>
  The plugin's configuration and state.  \<open>ResponseTimeout\<close> is a \<open>config.Duration\<close>,
  a count of nanoseconds; \<open>client\<close> and \<open>baseParsedURL\<close> are pointers, nil until
  \<open>Init\<close> sets them.
\<close>

record NOAAWeatherAPI =
  StationID :: "string list"
  BaseURL :: string
  ResponseTimeout :: int
  Units :: string
  UserAgent :: string
  client :: "http_Client option"
  baseParsedURL :: "URL option"

definition time_Second :: int where
  "time_Second = 1000000000"

definition defaultResponseTimeout :: int where
  "defaultResponseTimeout = time_Second * 5"

definition defaultUnits :: string where
  "defaultUnits = ''imperial''"

record ApiValue =
  UnitCode :: string
  Value :: float64
  QualityControl :: string

record Status =
  Temperature :: ApiValue
  Humidity :: ApiValue
  BarometricPressure :: ApiValue
  Visibility :: ApiValue
  WindSpeed :: ApiValue
  WindDirection :: ApiValue
  Dewpoint :: ApiValue
  Timestamp :: string

section \<open>UnitConversion\<close>

text \<open>
  The switch on \<open>value.UnitCode\<close> compares strings exactly.  The Celsius expression
  \<open>value.Value*9.0/5.0 + 32\<close> is \<open>((v * 9) / 5) + 32\<close>, each operation rounded; the
  constants are the float64 values nearest to the decimal literals.
\<close>

definition UnitConversion :: "NOAAWeatherAPI \<Rightarrow> ApiValue \<Rightarrow> float64" where
  "UnitConversion n v =
     (if UnitCode v = ''wmoUnit:degC'' then
        (if Units n = ''imperial''
         then f64_add (f64_div (f64_mul (Value v) (f64_const 9 1)) (f64_const 5 1))
                (f64_const 32 1)
         else Value v)
      else if UnitCode v = ''wmoUnit:km_h-1'' then
        (if Units n = ''imperial''
         then f64_div (Value v) (f64_const 1609 1000)
         else Value v)
      else if UnitCode v = ''wmoUnit:m'' then
        (if Units n = ''imperial''
         then f64_div (Value v) (f64_const 1609 1)
         else Value v)
      else Value v)"

section \<open>The accumulator and GatherWeather\<close>

text \<open>
  \<open>telegraf.Accumulator\<close> is the sink the plugin reports to.  It is modelled by the
  calls made on it, oldest first.  The type \<open>'t\<close> is \<open>time.Time\<close>.
\<close>

datatype 't acc_call =
    AddFields string "string \<rightharpoonup> float64" "string \<rightharpoonup> string" 't
  | AddError error

type_synonym 't Accumulator = "'t acc_call list"

text \<open>
  \<open>time.Parse\<close> belongs to Go's library and is a parameter of the model: \<open>tparse
  layout value\<close> is the error or the time that \<open>time.Parse(layout, value)\<close> returns.
\<close>

type_synonym 't time_Parse = "string \<Rightarrow> string \<Rightarrow> error + 't"

definition GatherWeather_fields :: "NOAAWeatherAPI \<Rightarrow> Status \<Rightarrow> (string \<rightharpoonup> float64)" where
  "GatherWeather_fields n status =
     [''pressure'' \<mapsto> Value (BarometricPressure status),
      ''dewpoint'' \<mapsto> Value (Dewpoint status),
      ''temperature'' \<mapsto> UnitConversion n (Temperature status),
      ''humidity'' \<mapsto> Value (Humidity status),
      ''visibility'' \<mapsto> UnitConversion n (Visibility status),
      ''wind_degrees'' \<mapsto> Value (WindDirection status),
      ''wind_speed'' \<mapsto> UnitConversion n (WindSpeed status)]"

definition GatherWeather_tags :: "string \<rightharpoonup> string" where
  "GatherWeather_tags = [''station'' \<mapsto> ''KSUA'']"

text \<open>
  On a timestamp that does not parse, the source builds an error value with
  \<open>fmt.Errorf\<close> and drops it: nothing is reported.
\<close>

definition GatherWeather ::
  "NOAAWeatherAPI \<Rightarrow> 't time_Parse \<Rightarrow> 't Accumulator \<Rightarrow> Status \<Rightarrow> 't Accumulator" where
  "GatherWeather n tparse acc status =
     (let fields = GatherWeather_fields n status;
          tags = GatherWeather_tags;
          layout = ''2006-01-02T15:04:05Z07:00''
      in case tparse layout (Timestamp status) of
           Inl err \<Rightarrow> acc
         | Inr tm \<Rightarrow> acc @ [AddFields ''noaa_weather'' fields tags tm])"

section \<open>Init\<close>

definition createHTTPClient :: "NOAAWeatherAPI \<Rightarrow> NOAAWeatherAPI \<times> http_Client" where
  "createHTTPClient n =
     (let n' = (if ResponseTimeout n < time_Second
                then n\<lparr>ResponseTimeout := defaultResponseTimeout\<rparr> else n)
      in (n', \<lparr>Timeout = ResponseTimeout n'\<rparr>))"

text \<open>\<open>Init\<close> returns the plugin as it leaves it and the error, \<open>None\<close> for nil.\<close>

definition Init :: "NOAAWeatherAPI \<Rightarrow> NOAAWeatherAPI \<times> error option" where
  "Init n =
     (case Parse (BaseURL n) of
        Inl err \<Rightarrow> (n\<lparr>baseParsedURL := None\<rparr>, Some err)
      | Inr u \<Rightarrow>
          let n1 = n\<lparr>baseParsedURL := Some u\<rparr>;
              n2 = (fst (createHTTPClient n1))\<lparr>client := Some (snd (createHTTPClient n1))\<rparr>
          in if Units n2 = ''imperial'' \<or> Units n2 = ''metric'' then (n2, None)
             else if Units n2 = [] then (n2\<lparr>Units := defaultUnits\<rparr>, None)
             else (n2, Some (Errorf ''unknown units: %s'' [Units n2])))"

section \<open>formatURL\<close>

text \<open>
  \<open>ResolveReference\<close> is called on \<open>n.baseParsedURL\<close>; on the nil pointer it reads a field
  of nil and panics.
\<close>

definition formatURL :: "NOAAWeatherAPI \<Rightarrow> string \<Rightarrow> string \<Rightarrow> string res" where
  "formatURL n path station_id =
     (let v = [(''require_qc'', [''false''])]
      in case Sprintf path (PathEscape station_id) of
           None \<Rightarrow> Unmodelled
         | Some p \<Rightarrow>
             let relative = new_URL\<lparr>Path := p, RawQuery := Values_Encode v\<rparr>
             in (case baseParsedURL n of
                   None \<Rightarrow>
                     Panic ''runtime error: invalid memory address or nil pointer dereference''
                 | Some u \<Rightarrow> Ret (URL_String (ResolveReference u relative))))"

section \<open>Gather\<close>

text \<open>
  \<open>gatherURL\<close> performs the HTTP exchange; its outcome is an input of the model:
  \<open>fetch i addr\<close> is the error or the decoded observation that the call
  \<open>n.gatherURL(addr)\<close> of the goroutine started for the \<open>i\<close>-th station returns.
\<close>

type_synonym gatherURL = "nat \<Rightarrow> string \<Rightarrow> error + Status"

text \<open>The body of the goroutine of one station.\<close>

definition Gather_task ::
  "NOAAWeatherAPI \<Rightarrow> gatherURL \<Rightarrow> 't time_Parse \<Rightarrow> 't Accumulator \<Rightarrow> nat \<Rightarrow> string
   \<Rightarrow> 't Accumulator" where
  "Gather_task n fetch tparse acc i addr =
     (case fetch i addr of
        Inl err \<Rightarrow> acc @ [AddError err]
      | Inr status \<Rightarrow> GatherWeather n tparse acc status)"

fun collect :: "'a res list \<Rightarrow> 'a list res" where
  "collect [] = Ret []"
| "collect (r # rs) =
     (case r of
        Ret a \<Rightarrow> (case collect rs of Ret as \<Rightarrow> Ret (a # as) | Panic p \<Rightarrow> Panic p
                   | Unmodelled \<Rightarrow> Unmodelled)
      | Panic p \<Rightarrow> Panic p
      | Unmodelled \<Rightarrow> Unmodelled)"

text \<open>
  \<open>Gather\<close> formats the address of every station and starts one goroutine per station; a
  panic of \<open>formatURL\<close> ends the program.  Each goroutine calls the accumulator at most
  once, and \<open>wg.Wait\<close> returns when all of them are done.  The goroutines run
  concurrently: \<open>sched\<close> lists their indices in the order in which they reach the
  accumulator, so a run of \<open>Gather\<close> is a \<open>sched\<close> that is a permutation of the indices of
  \<open>StationID\<close>.  The result is the accumulator and the returned error, always nil.
\<close>

definition Gather ::
  "NOAAWeatherAPI \<Rightarrow> gatherURL \<Rightarrow> 't time_Parse \<Rightarrow> nat list \<Rightarrow> 't Accumulator
   \<Rightarrow> ('t Accumulator \<times> error option) res" where
  "Gather n fetch tparse sched acc =
     (case collect (map (formatURL n ''/stations/%s/observations/latest'') (StationID n)) of
        Panic p \<Rightarrow> Panic p
      | Unmodelled \<Rightarrow> Unmodelled
      | Ret addrs \<Rightarrow>
          Ret (foldl (\<lambda>a i. if i < length addrs
                             then Gather_task n fetch tparse a i (addrs ! i) else a) acc sched,
               None))"

section \<open>The inputs of the plugin's tests\<close>

text \<open>
  The observation that \<open>sampleStatusResponse\<close> of the tests decodes to, and a stand-in for
  \<open>time.Parse\<close> that knows the timestamp of that observation (as seconds since 1970) and
  rejects the text \<open>yesterday\<close> and everything else.  They serve to run the model.
\<close>

definition sampleStatus :: Status where
  "sampleStatus =
     \<lparr>Temperature = \<lparr>UnitCode = ''wmoUnit:degC'', Value = f64_const 21 1,
                      QualityControl = ''V''\<rparr>,
      Humidity = \<lparr>UnitCode = ''wmoUnit:percent'',
                   Value = f64_const 52802638324228 1000000000000, QualityControl = ''V''\<rparr>,
      BarometricPressure = \<lparr>UnitCode = ''wmoUnit:Pa'', Value = f64_const 101520 1,
                             QualityControl = ''V''\<rparr>,
      Visibility = \<lparr>UnitCode = ''wmoUnit:m'', Value = f64_const 16090 1,
                     QualityControl = ''C''\<rparr>,
      WindSpeed = \<lparr>UnitCode = ''wmoUnit:km_h-1'', Value = f64_const 2232 100,
                    QualityControl = ''V''\<rparr>,
      WindDirection = \<lparr>UnitCode = ''wmoUnit:degree_(angle)'', Value = f64_const 340 1,
                        QualityControl = ''V''\<rparr>,
      Dewpoint = \<lparr>UnitCode = ''wmoUnit:degC'', Value = f64_const 11 1,
                   QualityControl = ''V''\<rparr>,
      Timestamp = ''2021-11-07T18:50:00+00:00''\<rparr>"

definition test_time_Parse :: "int time_Parse" where
  "test_time_Parse layout v =
     (if layout = ''2006-01-02T15:04:05Z07:00'' \<and> v = ''2021-11-07T18:50:00+00:00''
      then Inr 1636311000
      else Inl (ErrorString ''parsing time''))"

definition test_plugin :: "string list \<Rightarrow> string \<Rightarrow> NOAAWeatherAPI" where
  "test_plugin stations units =
     \<lparr>StationID = stations, BaseURL = ''http://foo.com'', ResponseTimeout = 0, Units = units,
      UserAgent = [], client = None, baseParsedURL = None\<rparr>"

text \<open>
  A stand-in for the HTTP exchange of \<open>gatherURL\<close>: a server at \<open>http://foo.com\<close> that
  has the sample observation for one station and answers \<open>404 Not Found\<close>, which
  \<open>gatherURL\<close> turns into an error, at any other address.
\<close>

definition test_gatherURL :: "string \<Rightarrow> gatherURL" where
  "test_gatherURL station i addr =
     (if addr = ''http://foo.com/stations/'' @ station @ ''/observations/latest?require_qc=false''
      then Inr sampleStatus
      else Inl (Errorf ''%s returned HTTP status %s'' [addr, ''404 Not Found'']))"

section \<open>Evaluation\<close>

lemmas f64_defs = f64_const_def f64_round_def ilog2_def compute_floorlog f64_pack_def
  f64_inf_def f64_zero_def f64_nan_def Let_def f64_decode_def f64_expo_def f64_frac_def
  f64_sign_def f64_mul_def f64_div_def f64_add_def dy_num_def dy_den_def

lemmas url_defs = Parse_def parse_def split_def stringContainsCTLByte_def getScheme_def
  ToLower_def new_URL_def parseAuthority_def parseHost_def validOptionalPort_def
  validUserinfo_def setPath_def setFragment_def shouldEscape_def ishex_def unhex_def
  upperhex_def validEncoded_def EscapedPath_def EscapedFragment_def resolvePath_def
  resolvePath_step_def ResolveReference_def Userinfo_String_def URL_String_def
  Values_Encode_def PathEscape_def QueryEscape_def TrimPrefix_def Let_def

lemma f64_const_21: "f64_const 21 1 = 0x4035000000000000"
  by (simp add: f64_defs)

lemma f64_const_69_8: "f64_const 698 10 = 0x4051733333333333"
  by (simp add: f64_defs)

lemma fahrenheit_of_21:
  "f64_add (f64_div (f64_mul (f64_const 21 1) (f64_const 9 1)) (f64_const 5 1)) (f64_const 32 1)
   = f64_const 698 10"
  by (simp add: f64_defs)

lemma Parse_empty: "Parse [] = Inr new_URL"
  by (simp add: url_defs)

lemma Parse_foo_com:
  "Parse ''http://foo.com'' = Inr (new_URL\<lparr>Scheme := ''http'', Host := ''foo.com''\<rparr>)"
  by (simp add: url_defs)

section \<open>The unit converter\<close>

text \<open>
  C3, as stated: the converter applied to the value 21 with the unit code \<open>degC\<close> returns
  69.8 in the imperial system.  The converter matches the code \<open>wmoUnit:degC\<close> exactly,
  so the code \<open>degC\<close> is an unknown one and the value comes back unchanged: 21, not 69.8.
\<close>

theorem UnitConversion_degC_counterexample:
  "UnitConversion (test_plugin [''KSUA''] ''imperial'')
     \<lparr>UnitCode = ''degC'', Value = f64_const 21 1, QualityControl = ''V''\<rparr>
   \<noteq> f64_const 698 10"
  by (simp add: UnitConversion_def test_plugin_def f64_const_21 f64_const_69_8
      del: One_nat_def)

text \<open>
  C3, amended: the converter applied to the value 21 with the unit code \<open>wmoUnit:degC\<close>
  returns 69.8 when the unit system is imperial and 21 when it is metric.  The float64
  results are equal bit for bit.
\<close>

theorem UnitConversion_wmoUnit_degC_21:
  "UnitConversion (n\<lparr>Units := ''imperial''\<rparr>)
     \<lparr>UnitCode = ''wmoUnit:degC'', Value = f64_const 21 1, QualityControl = q\<rparr>
     = f64_const 698 10
   \<and> UnitConversion (n\<lparr>Units := ''metric''\<rparr>)
     \<lparr>UnitCode = ''wmoUnit:degC'', Value = f64_const 21 1, QualityControl = q\<rparr>
     = f64_const 21 1"
  by (simp add: UnitConversion_def fahrenheit_of_21 del: One_nat_def)

text \<open>
  C7: for every value and every unit code that is none of the three codes the converter
  matches, the converter returns the value unchanged, whatever the unit system, so for
  the metric and for the imperial one.
\<close>

theorem UnitConversion_unknown_code:
  assumes "UnitCode v \<notin> {''wmoUnit:degC'', ''wmoUnit:km_h-1'', ''wmoUnit:m''}"
  shows "UnitConversion n v = Value v"
  using assms by (simp add: UnitConversion_def)

theorem UnitConversion_unknown_code_witness:
  "UnitCode (BarometricPressure sampleStatus)
     \<notin> {''wmoUnit:degC'', ''wmoUnit:km_h-1'', ''wmoUnit:m''}
   \<and> UnitConversion (test_plugin [''KSUA''] ''imperial'') (BarometricPressure sampleStatus)
     = f64_const 101520 1
   \<and> UnitConversion (test_plugin [''KSUA''] ''metric'') (BarometricPressure sampleStatus)
     = f64_const 101520 1"
  using UnitConversion_unknown_code
      [of "BarometricPressure sampleStatus" "test_plugin [''KSUA''] ''imperial''"]
    UnitConversion_unknown_code
      [of "BarometricPressure sampleStatus" "test_plugin [''KSUA''] ''metric''"]
  by (simp add: sampleStatus_def)

text \<open>
  C9: for every unit-system string other than \<open>imperial\<close>, also one that \<open>Init\<close> rejects,
  the converter returns the value unchanged for every unit code; it does not validate the
  string.
\<close>

theorem UnitConversion_not_imperial:
  assumes "Units n \<noteq> ''imperial''"
  shows "UnitConversion n v = Value v"
  using assms by (simp add: UnitConversion_def)

theorem UnitConversion_not_imperial_witness:
  "Units (test_plugin [''KSUA''] ''kelvin'') \<noteq> ''imperial''
   \<and> snd (Init (test_plugin [''KSUA''] ''kelvin'')) \<noteq> None
   \<and> UnitConversion (test_plugin [''KSUA''] ''kelvin'') (Temperature sampleStatus)
     = Value (Temperature sampleStatus)"
proof -
  have units: "Units (test_plugin [''KSUA''] ''kelvin'') \<noteq> ''imperial''"
    by (simp add: test_plugin_def)
  have rejected: "snd (Init (test_plugin [''KSUA''] ''kelvin'')) \<noteq> None"
    by (simp add: Init_def test_plugin_def Parse_foo_com createHTTPClient_def Let_def)
  from units rejected UnitConversion_not_imperial [OF units, of "Temperature sampleStatus"]
  show ?thesis by simp
qed

text \<open>
  C10: the converter reads the unit code and the value of a reading and the unit system,
  never the quality-control field: two readings that agree on unit code and value
  convert to the same result.
\<close>

theorem UnitConversion_ignores_QualityControl:
  assumes "UnitCode a = UnitCode b" and "Value a = Value b"
  shows "UnitConversion n a = UnitConversion n b"
  using assms by (simp add: UnitConversion_def)

theorem UnitConversion_ignores_QualityControl_witness:
  "QualityControl (Temperature sampleStatus)
     \<noteq> QualityControl ((Temperature sampleStatus)\<lparr>QualityControl := ''Z''\<rparr>)
   \<and> UnitConversion (test_plugin [''KSUA''] ''imperial'') (Temperature sampleStatus)
     = UnitConversion (test_plugin [''KSUA''] ''imperial'')
         ((Temperature sampleStatus)\<lparr>QualityControl := ''Z''\<rparr>)"
proof -
  have code: "UnitCode (Temperature sampleStatus)
      = UnitCode ((Temperature sampleStatus)\<lparr>QualityControl := ''Z''\<rparr>)"
    by simp
  have val: "Value (Temperature sampleStatus)
      = Value ((Temperature sampleStatus)\<lparr>QualityControl := ''Z''\<rparr>)"
    by simp
  have qc: "QualityControl (Temperature sampleStatus)
     \<noteq> QualityControl ((Temperature sampleStatus)\<lparr>QualityControl := ''Z''\<rparr>)"
    by (simp add: sampleStatus_def)
  from qc UnitConversion_ignores_QualityControl [OF code val]
  show ?thesis by simp
qed

section \<open>Init\<close>

text \<open>
  C1 says that \<open>Init\<close> on a plugin with empty \<open>Units\<close> leaves \<open>Units\<close> at \<open>metric\<close>.  On
  the plugin of \<open>TestDefaultUnits\<close>, whose fields are all zero, \<open>Init\<close> returns no error
  and leaves \<open>Units\<close> at \<open>imperial\<close>, the value of \<open>defaultUnits\<close>.
\<close>

theorem Init_empty_Units_imperial:
  "Init \<lparr>StationID = [], BaseURL = [], ResponseTimeout = 0, Units = [], UserAgent = [],
          client = None, baseParsedURL = None\<rparr>
   = (\<lparr>StationID = [], BaseURL = [], ResponseTimeout = 5000000000, Units = ''imperial'',
        UserAgent = [], client = Some \<lparr>Timeout = 5000000000\<rparr>,
        baseParsedURL = Some new_URL\<rparr>, None)"
  by (simp add: Init_def Parse_empty createHTTPClient_def time_Second_def
      defaultResponseTimeout_def defaultUnits_def)

section \<open>GatherWeather\<close>

lemma GatherWeather_append:
  "GatherWeather n tparse acc status = acc @ GatherWeather n tparse [] status"
  by (simp add: GatherWeather_def split: sum.splits)

lemma Gather_task_append:
  "Gather_task n fetch tparse acc i addr = acc @ Gather_task n fetch tparse [] i addr"
  using GatherWeather_append [of n tparse acc]
  by (simp add: Gather_task_def split: sum.splits)

text \<open>
  C4 says that the metric is emitted under the measurement name \<open>weather\<close>.  On the
  observation of the tests, \<open>GatherWeather\<close> calls \<open>AddFields\<close> with the name
  \<open>noaa_weather\<close>.
\<close>

theorem GatherWeather_measurement_name:
  "GatherWeather n test_time_Parse [] sampleStatus
   = [AddFields ''noaa_weather'' (GatherWeather_fields n sampleStatus) GatherWeather_tags
        1636311000]"
  by (simp add: GatherWeather_def test_time_Parse_def sampleStatus_def)

text \<open>
  C6: in the goroutine of a station whose observation was fetched, a timestamp that
  \<open>time.Parse\<close> rejects under the RFC 3339 layout leaves the accumulator as it was, with
  no call of \<open>AddFields\<close> and none of \<open>AddError\<close>; a timestamp that parses adds exactly
  one call of \<open>AddFields\<close>, with the parsed time.
\<close>

theorem Gather_task_timestamp:
  assumes "fetch i addr = Inr status"
  shows "(\<forall>err. tparse ''2006-01-02T15:04:05Z07:00'' (Timestamp status) = Inl err
            \<longrightarrow> Gather_task n fetch tparse acc i addr = acc)
       \<and> (\<forall>tm. tparse ''2006-01-02T15:04:05Z07:00'' (Timestamp status) = Inr tm
            \<longrightarrow> (\<exists>name fields tags.
                   Gather_task n fetch tparse acc i addr
                   = acc @ [AddFields name fields tags tm]))"
  using assms by (simp add: Gather_task_def GatherWeather_def)

theorem Gather_task_timestamp_witness:
  "Gather_task (test_plugin [''KSUA''] ''metric'')
     (\<lambda>i addr. Inr (sampleStatus\<lparr>Timestamp := ''yesterday''\<rparr>)) test_time_Parse [] 0 [] = []
   \<and> (\<exists>name fields tags.
        Gather_task (test_plugin [''KSUA''] ''metric'')
          (\<lambda>i addr. Inr sampleStatus) test_time_Parse [] 0 []
        = [AddFields name fields tags 1636311000])"
proof -
  have bad: "test_time_Parse ''2006-01-02T15:04:05Z07:00''
               (Timestamp (sampleStatus\<lparr>Timestamp := ''yesterday''\<rparr>))
             = Inl (ErrorString ''parsing time'')"
    by (simp add: test_time_Parse_def)
  have good: "test_time_Parse ''2006-01-02T15:04:05Z07:00'' (Timestamp sampleStatus)
              = Inr 1636311000"
    by (simp add: test_time_Parse_def sampleStatus_def)
  from bad
    Gather_task_timestamp
      [where fetch = "\<lambda>i addr. Inr (sampleStatus\<lparr>Timestamp := ''yesterday''\<rparr>)"
        and i = 0 and addr = "[]"
        and status = "sampleStatus\<lparr>Timestamp := ''yesterday''\<rparr>"
        and tparse = test_time_Parse and n = "test_plugin [''KSUA''] ''metric''"
        and acc = "[]"]
  have a: "Gather_task (test_plugin [''KSUA''] ''metric'')
             (\<lambda>i addr. Inr (sampleStatus\<lparr>Timestamp := ''yesterday''\<rparr>))
             test_time_Parse [] 0 [] = []"
    by blast
  from good
    Gather_task_timestamp
      [where fetch = "\<lambda>i addr. Inr sampleStatus" and i = 0 and addr = "[]"
        and status = sampleStatus and tparse = test_time_Parse
        and n = "test_plugin [''KSUA''] ''metric''" and acc = "[]"]
  have b: "\<exists>name fields tags.
        Gather_task (test_plugin [''KSUA''] ''metric'')
          (\<lambda>i addr. Inr sampleStatus) test_time_Parse [] 0 []
        = [AddFields name fields tags 1636311000]"
    by simp
  from a b show ?thesis by blast
qed

section \<open>formatURL\<close>

lemma Sprintf_stations:
  "Sprintf ''/stations/%s/observations/latest'' a
   = Some (''/stations/'' @ a @ ''/observations/latest'')"
  by (simp add: Sprintf_def)

lemma Values_Encode_require_qc:
  "Values_Encode [(''require_qc'', [''false''])] = ''require_qc=false''"
  by (simp add: url_defs)

lemma formatURL_Some:
  assumes "baseParsedURL n = Some u"
  shows "formatURL n ''/stations/%s/observations/latest'' station_id
   = Ret (URL_String (ResolveReference u
       (new_URL\<lparr>Path := ''/stations/'' @ PathEscape station_id @ ''/observations/latest'',
                 RawQuery := ''require_qc=false''\<rparr>)))"
  using assms by (simp add: formatURL_def Sprintf_stations Values_Encode_require_qc)




lemma Init_test_plugin:
  "units = ''metric'' \<or> units = ''imperial'' \<Longrightarrow> Init (test_plugin stations units)
   = (\<lparr>StationID = stations, BaseURL = ''http://foo.com'', ResponseTimeout = 5000000000,
        Units = units, UserAgent = [], client = Some \<lparr>Timeout = 5000000000\<rparr>,
        baseParsedURL = Some (new_URL\<lparr>Scheme := ''http'', Host := ''foo.com''\<rparr>)\<rparr>, None)"
  by (auto simp add: Init_def test_plugin_def Parse_foo_com createHTTPClient_def
      time_Second_def defaultResponseTimeout_def Let_def)

lemma URL_KSUA:
  "URL_String (ResolveReference (new_URL\<lparr>Scheme := ''http'', Host := ''foo.com''\<rparr>)
       (new_URL\<lparr>Path := ''/stations/'' @ PathEscape ''KSUA'' @ ''/observations/latest'',
                 RawQuery := ''require_qc=false''\<rparr>))
   = ''http://foo.com/stations/KSUA/observations/latest?require_qc=false''"
  by (simp add: url_defs)


lemma URL_KJFK:
  "URL_String (ResolveReference (new_URL\<lparr>Scheme := ''http'', Host := ''foo.com''\<rparr>)
       (new_URL\<lparr>Path := ''/stations/'' @ PathEscape ''KJFK'' @ ''/observations/latest'',
                 RawQuery := ''require_qc=false''\<rparr>))
   = ''http://foo.com/stations/KJFK/observations/latest?require_qc=false''"
  by (simp add: url_defs)

lemma URL_KBAD:
  "URL_String (ResolveReference (new_URL\<lparr>Scheme := ''http'', Host := ''foo.com''\<rparr>)
       (new_URL\<lparr>Path := ''/stations/'' @ PathEscape ''KBAD'' @ ''/observations/latest'',
                 RawQuery := ''require_qc=false''\<rparr>))
   = ''http://foo.com/stations/KBAD/observations/latest?require_qc=false''"
  by (simp add: url_defs)

lemma formatURL_test_plugin:
  assumes "URL_String (ResolveReference (new_URL\<lparr>Scheme := ''http'', Host := ''foo.com''\<rparr>)
       (new_URL\<lparr>Path := ''/stations/'' @ PathEscape st @ ''/observations/latest'',
                 RawQuery := ''require_qc=false''\<rparr>)) = addr"
  shows "formatURL (fst (Init (test_plugin stations ''metric'')))
           ''/stations/%s/observations/latest'' st = Ret addr"
proof -
  have "baseParsedURL (fst (Init (test_plugin stations ''metric'')))
        = Some (new_URL\<lparr>Scheme := ''http'', Host := ''foo.com''\<rparr>)"
    by (simp add: Init_test_plugin)
  from formatURL_Some [OF this, of st] show ?thesis
    by (simp only: assms)
qed



section \<open>Gather\<close>

lemma collect_Ret: "collect (map (\<lambda>x. Ret (g x)) xs) = Ret (map g xs)"
  by (induction xs) simp_all

lemma foldl_Gather_task:
  "foldl (\<lambda>a i. if i < length addrs then Gather_task n fetch tparse a i (addrs ! i) else a)
     acc sched
   = acc @ concat (map (\<lambda>i. if i < length addrs
                              then Gather_task n fetch tparse [] i (addrs ! i) else []) sched)"
proof (induction sched arbitrary: acc)
  case Nil
  then show ?case by simp
next
  case (Cons i sched)
  show ?case
    using Gather_task_append [of n fetch tparse acc i "addrs ! i"]
    by (simp add: Cons.IH)
qed

text \<open>
  C5: on a plugin that \<open>Init\<close> has given its parsed base URL, for every outcome of the
  fetches, every order in which the goroutines finish and every accumulator, \<open>Gather\<close>
  returns, with the error nil.  The accumulator keeps what it held; the error of every
  failed fetch is in it as an \<open>AddError\<close> call, and what \<open>GatherWeather\<close> emits for
  every fetched observation is in it as well, whatever the other stations did.
\<close>

theorem Gather_returns_nil:
  assumes init: "baseParsedURL n = Some u"
    and perm: "mset sched = mset [0..<length (StationID n)]"
  shows "\<exists>acc'. Gather n fetch tparse sched acc = Ret (acc', None)
      \<and> set acc \<subseteq> set acc'
      \<and> (\<forall>i<length (StationID n). \<forall>addr.
            formatURL n ''/stations/%s/observations/latest'' (StationID n ! i) = Ret addr
            \<longrightarrow> (case fetch i addr of
                   Inl err \<Rightarrow> AddError err \<in> set acc'
                 | Inr status \<Rightarrow> set (GatherWeather n tparse [] status) \<subseteq> set acc'))"
proof -
  define g where "g = (\<lambda>station_id. URL_String (ResolveReference u
       (new_URL\<lparr>Path := ''/stations/'' @ PathEscape station_id @ ''/observations/latest'',
                 RawQuery := ''require_qc=false''\<rparr>)))"
  define addrs where "addrs = map g (StationID n)"
  define h where "h = (\<lambda>i. if i < length addrs
                              then Gather_task n fetch tparse [] i (addrs ! i) else [])"
  define acc' where "acc' = acc @ concat (map h sched)"
  have fmt: "formatURL n ''/stations/%s/observations/latest'' st = Ret (g st)" for st
    using formatURL_Some [OF init] by (simp add: g_def)
  have "map (formatURL n ''/stations/%s/observations/latest'') (StationID n)
        = map (\<lambda>x. Ret (g x)) (StationID n)"
    by (simp add: fmt)
  then have "collect (map (formatURL n ''/stations/%s/observations/latest'') (StationID n))
        = collect (map (\<lambda>x. Ret (g x)) (StationID n))"
    by (rule arg_cong)
  also have "\<dots> = Ret addrs"
    by (simp only: collect_Ret addrs_def)
  finally have coll:
    "collect (map (formatURL n ''/stations/%s/observations/latest'') (StationID n)) = Ret addrs" .
  have res: "Gather n fetch tparse sched acc = Ret (acc', None)"
    by (simp add: Gather_def coll foldl_Gather_task acc'_def h_def)
  have sched: "set sched = {0..<length (StationID n)}"
    using mset_eq_setD [OF perm] by simp
  have each: "(case fetch i addr of
                   Inl err \<Rightarrow> AddError err \<in> set acc'
                 | Inr status \<Rightarrow> set (GatherWeather n tparse [] status) \<subseteq> set acc')"
    if i: "i < length (StationID n)"
      and addr: "formatURL n ''/stations/%s/observations/latest'' (StationID n ! i) = Ret addr"
    for i addr
  proof -
    from addr fmt have a: "addr = addrs ! i"
      using i by (simp add: addrs_def)
    from i sched have "i \<in> set sched" by simp
    then have sub: "set (h i) \<subseteq> set acc'"
      by (auto simp add: acc'_def)
    have hi: "h i = Gather_task n fetch tparse [] i addr"
      using i a by (simp add: h_def addrs_def)
    show ?thesis
      using sub by (simp add: hi Gather_task_def split: sum.splits)
  qed
  have "set acc \<subseteq> set acc'"
    by (simp add: acc'_def)
  with res each show ?thesis by blast
qed

theorem Gather_returns_nil_witness:
  "\<exists>acc'. Gather (fst (Init (test_plugin [''KSUA'', ''KBAD''] ''metric'')))
            (test_gatherURL ''KSUA'') test_time_Parse [1, 0] [] = Ret (acc', None)
      \<and> AddError (Errorf ''%s returned HTTP status %s''
           [''http://foo.com/stations/KBAD/observations/latest?require_qc=false'',
            ''404 Not Found'']) \<in> set acc'
      \<and> AddFields ''noaa_weather''
           (GatherWeather_fields (fst (Init (test_plugin [''KSUA'', ''KBAD''] ''metric'')))
              sampleStatus)
           GatherWeather_tags 1636311000 \<in> set acc'"
proof -
  let ?n = "fst (Init (test_plugin [''KSUA'', ''KBAD''] ''metric''))"
  have base: "baseParsedURL ?n = Some (new_URL\<lparr>Scheme := ''http'', Host := ''foo.com''\<rparr>)"
    by (simp add: Init_test_plugin)
  have st: "StationID ?n = [''KSUA'', ''KBAD'']"
    by (simp add: Init_test_plugin)
  have perm: "mset [1, 0] = mset [0..<length (StationID ?n)]"
    by (simp add: st upt_rec)
  from Gather_returns_nil [OF base perm, of "test_gatherURL ''KSUA''" test_time_Parse "[]"]
  obtain acc' where res: "Gather ?n (test_gatherURL ''KSUA'') test_time_Parse [1, 0] []
        = Ret (acc', None)"
    and each: "\<And>i addr. i < length (StationID ?n) \<Longrightarrow>
            formatURL ?n ''/stations/%s/observations/latest'' (StationID ?n ! i) = Ret addr
            \<Longrightarrow> (case test_gatherURL ''KSUA'' i addr of
                   Inl err \<Rightarrow> AddError err \<in> set acc'
                 | Inr status \<Rightarrow> set (GatherWeather ?n test_time_Parse [] status) \<subseteq> set acc')"
    by blast
  have tm: "test_time_Parse ''2006-01-02T15:04:05Z07:00'' (Timestamp sampleStatus)
            = Inr 1636311000"
    by (simp add: test_time_Parse_def sampleStatus_def)
  have f0: "formatURL ?n ''/stations/%s/observations/latest'' (StationID ?n ! 0)
            = Ret ''http://foo.com/stations/KSUA/observations/latest?require_qc=false''"
    using formatURL_test_plugin [OF URL_KSUA, of "[''KSUA'', ''KBAD'']"] by (simp add: st)
  have f1: "formatURL ?n ''/stations/%s/observations/latest'' (StationID ?n ! 1)
            = Ret ''http://foo.com/stations/KBAD/observations/latest?require_qc=false''"
    using formatURL_test_plugin [OF URL_KBAD, of "[''KSUA'', ''KBAD'']"] by (simp add: st)
  from each [OF _ f0]
  have ok: "AddFields ''noaa_weather'' (GatherWeather_fields ?n sampleStatus)
              GatherWeather_tags 1636311000 \<in> set acc'"
    by (simp add: st test_gatherURL_def GatherWeather_def tm)
  from each [OF _ f1]
  have bad: "AddError (Errorf ''%s returned HTTP status %s''
           [''http://foo.com/stations/KBAD/observations/latest?require_qc=false'',
            ''404 Not Found'']) \<in> set acc'"
    by (simp add: st test_gatherURL_def)
  from res ok bad show ?thesis by blast
qed

text \<open>
  C2 says that every emitted metric carries the tag \<open>station\<close> with the first
  configured station's identifier.  With the one station \<open>KJFK\<close> configured and its
  observation fetched from the address of \<open>KJFK\<close>, the metric that \<open>Gather\<close> emits
  carries the tag \<open>station\<close> with the value \<open>KSUA\<close>, a literal of \<open>GatherWeather\<close>.
\<close>

theorem Gather_tags_KSUA:
  "Gather (fst (Init (test_plugin [''KJFK''] ''metric''))) (test_gatherURL ''KJFK'')
     test_time_Parse [0] []
   = Ret ([AddFields ''noaa_weather''
             (GatherWeather_fields (fst (Init (test_plugin [''KJFK''] ''metric''))) sampleStatus)
             [''station'' \<mapsto> ''KSUA''] 1636311000],
          None)"
proof -
  have st: "StationID (fst (Init (test_plugin [''KJFK''] ''metric''))) = [''KJFK'']"
    by (simp add: Init_test_plugin)
  have fetch: "test_gatherURL ''KJFK'' 0
                 ''http://foo.com/stations/KJFK/observations/latest?require_qc=false''
               = Inr sampleStatus"
    by (simp add: test_gatherURL_def)
  have tm: "test_time_Parse ''2006-01-02T15:04:05Z07:00'' (Timestamp sampleStatus)
            = Inr 1636311000"
    by (simp add: test_time_Parse_def sampleStatus_def)
  show ?thesis
    by (simp add: Gather_def st formatURL_test_plugin [OF URL_KJFK] Gather_task_def fetch
        GatherWeather_def tm GatherWeather_tags_def)
qed

end
